theory Spec2Isabelle
  imports Main "HOL-Library.AList"
begin

section \<open>Values shared by the serializers of temba/api/v2/serializers.py\<close>

text \<open>
  A parsed JSON request body or a rendered response: Python's \<open>None\<close>, \<open>bool\<close>,
  number, text, \<open>list\<close> and \<open>dict\<close>. A dictionary keeps the order in which its keys
  were inserted, so it is an association list whose keys are updated in place
  (\<open>AList.update\<close>).
\<close>

datatype json =
    JNull
  | JBool bool
  | JNum int
  | JStr string
  | JArr "json list"
  | JObj "(string \<times> json) list"

text \<open>
  \<open>serializers.ValidationError\<close>: raised either with one message, or with a
  \<open>detail\<close> dictionary from a key to its list of messages.
\<close>

datatype validation_error =
    ValidationError string
  | ValidationErrorDetail "(string \<times> string list) list"

text \<open>A function that raises returns \<open>Inl\<close> of the error, otherwise \<open>Inr\<close> of its value.\<close>

type_synonym 'a result = "validation_error + 'a"


section \<open>extract_constants\<close>

text \<open>
  \<^verbatim>\<open>
  def extract_constants(config, reverse=False):
      if reverse:
          return {t[2]: t[0] for t in config}
      else:
          return {t[0]: t[2] for t in config}
  \<close>
  A dictionary comprehension stores the entries in the order of \<open>config\<close>; a later entry
  with the same key replaces the earlier one. The resulting dictionary is only ever read
  by key (\<open>.get\<close>, \<open>[]\<close>, \<open>.keys()\<close>), so it is a map.
\<close>

definition extract_constants :: "('a \<times> 'l \<times> 'a) list \<Rightarrow> bool \<Rightarrow> ('a \<rightharpoonup> 'a)" where
  "extract_constants config reverse =
     (if reverse
      then fold (\<lambda>t d. d(snd (snd t) \<mapsto> fst t)) config Map.empty
      else fold (\<lambda>t d. d(fst t \<mapsto> snd (snd t))) config Map.empty)"


section \<open>Python truth values\<close>

text \<open>
  \<open>d.get(key)\<close> is \<open>None\<close> for a missing key. In a condition, \<open>None\<close>, the empty
  text and the empty list count as false; an instance of a model class counts as true.
\<close>

definition truthy_seq :: "'a list option \<Rightarrow> bool" where
  "truthy_seq v = (case v of None \<Rightarrow> False | Some xs \<Rightarrow> xs \<noteq> [])"

definition truthy_obj :: "'a option \<Rightarrow> bool" where
  "truthy_obj v = (case v of None \<Rightarrow> False | Some x \<Rightarrow> True)"

definition json_text :: "string option \<Rightarrow> json" where
  "json_text v = (case v of None \<Rightarrow> JNull | Some s \<Rightarrow> JStr s)"


section \<open>Entities read and written by the serializers\<close>

text \<open>
  The entities belong to the model layer; each record holds the attributes that
  serializers.py reads or assigns. \<open>org_is_suspended\<close> is what \<open>org.is_suspended()\<close>
  returns.
\<close>

type_synonym user = string

record org =
  org_id :: nat
  org_is_anon :: bool
  org_is_suspended :: bool

record contact_group =
  group_uuid :: string
  group_name :: string
  group_is_dynamic :: bool

record contact_field =
  field_key :: string
  field_label :: string

record channel =
  channel_uuid :: string
  channel_name :: string

text \<open>
  \<open>contact_urns\<close> is \<open>[urn.urn for urn in obj.get_urns()]\<close>;
  \<open>contact_prefetched_user_groups\<close> is \<open>None\<close> when the object has no attribute
  \<open>prefetched_user_groups\<close>; \<open>contact_user_groups\<close> is \<open>obj.user_groups.all()\<close>.
\<close>

record contact =
  contact_uuid :: string
  contact_name :: "string option"
  contact_language :: "string option"
  contact_is_active :: bool
  contact_is_blocked :: bool
  contact_is_stopped :: bool
  contact_urns :: "string list"
  contact_prefetched_user_groups :: "contact_group list option"
  contact_user_groups :: "contact_group list"
  contact_created_on :: string
  contact_modified_on :: string

record flow =
  flow_uuid :: string
  flow_name :: string

text \<open>Two model instances are equal when their primary keys are.\<close>

record campaign =
  campaign_pk :: nat
  campaign_uuid :: string
  campaign_name :: string

datatype event_type = TYPE_FLOW | TYPE_MESSAGE

record campaign_event =
  event_campaign :: campaign
  event_event_type :: event_type
  event_flow :: flow
  event_message :: "string option"
  event_offset :: int
  event_unit :: string
  event_delivery_hour :: int
  event_relative_to :: contact_field

record msg =
  msg_id :: nat
  msg_status :: string
  msg_visibility :: string
  msg_direction :: string
  msg_text :: string

text \<open>
  A geometry collection is true in a condition when it holds at least one geometry
  (its length); \<open>geojson\<close> is its GeoJSON text.
\<close>

record geometry =
  geojson :: string
  num_geom :: nat

datatype admin_boundary =
  AdminBoundary
    (boundary_osm_id: string)
    (boundary_name: string)
    (boundary_parent: "admin_boundary option")
    (boundary_level: int)
    (boundary_aliases: "string list")
    (boundary_simplified_geometry: "geometry option")

text \<open>
  The request context: \<open>context['org']\<close>, \<open>context['user']\<close>,
  \<open>context['lookup_values']\<close> (a dictionary, read by key with \<open>map_of\<close>),
  \<open>context['contact_fields']\<close> and \<open>context['include_geometry']\<close>.
\<close>

record request_context =
  ctx_org :: org
  ctx_user :: user
  ctx_lookup_values :: "(string \<times> string) list"
  ctx_contact_fields :: "contact_field list"
  ctx_include_geometry :: bool


section \<open>WriteSerializer\<close>

text \<open>
  \<^verbatim>\<open>
  def run_validation(self, data=serializers.empty):
      if not isinstance(data, dict):
          raise serializers.ValidationError(detail={
              'non_field_errors': ["Request body should be a single JSON object"]
          })
      return super(WriteSerializer, self).run_validation(data)
  \<close>
  \<open>data\<close> is \<open>None\<close> for the default \<open>serializers.empty\<close>. The framework's
  \<open>run_validation\<close>, which validates the fields one by one, is the parameter
  \<open>super_run_validation\<close>.
\<close>

definition run_validation ::
  "((string \<times> json) list \<Rightarrow> 'a result) \<Rightarrow> json option \<Rightarrow> 'a result" where
  "run_validation super_run_validation data =
     (case data of
        Some (JObj d) \<Rightarrow> super_run_validation d
      | _ \<Rightarrow> Inl (ValidationErrorDetail
                 [(''non_field_errors'', [''Request body should be a single JSON object''])]))"


section \<open>AdminBoundaryReadSerializer\<close>

text \<open>
  \<^verbatim>\<open>
  def get_parent(self, obj):
      return {'osm_id': obj.parent.osm_id, 'name': obj.parent.name} if obj.parent else None

  def get_aliases(self, obj):
      return [alias.name for alias in obj.aliases.all()]

  def get_geometry(self, obj):
      if self.context['include_geometry'] and obj.simplified_geometry:
          return json.loads(obj.simplified_geometry.geojson)
      else:
          return None

  class Meta:
      fields = ('osm_id', 'name', 'parent', 'level', 'aliases', 'geometry')
  \<close>
  \<open>json.loads\<close> is the parameter \<open>json_loads\<close>.
\<close>

definition AdminBoundaryReadSerializer_get_parent :: "admin_boundary \<Rightarrow> json" where
  "AdminBoundaryReadSerializer_get_parent obj =
     (case boundary_parent obj of
        Some p \<Rightarrow> JObj [(''osm_id'', JStr (boundary_osm_id p)), (''name'', JStr (boundary_name p))]
      | None \<Rightarrow> JNull)"

definition AdminBoundaryReadSerializer_get_aliases :: "admin_boundary \<Rightarrow> json" where
  "AdminBoundaryReadSerializer_get_aliases obj = JArr (map JStr (boundary_aliases obj))"

definition truthy_geometry :: "geometry option \<Rightarrow> bool" where
  "truthy_geometry v = (case v of None \<Rightarrow> False | Some g \<Rightarrow> 0 < num_geom g)"

definition AdminBoundaryReadSerializer_get_geometry ::
  "(string \<Rightarrow> json) \<Rightarrow> request_context \<Rightarrow> admin_boundary \<Rightarrow> json" where
  "AdminBoundaryReadSerializer_get_geometry json_loads ctx obj =
     (if ctx_include_geometry ctx \<and> truthy_geometry (boundary_simplified_geometry obj)
      then (case boundary_simplified_geometry obj of
              Some g \<Rightarrow> json_loads (geojson g)
            | None \<Rightarrow> JNull)
      else JNull)"

text \<open>
  The rendered object has one entry for each name of \<open>Meta.fields\<close>, in that order. The
  entry of a \<open>SerializerMethodField\<close> holds what its \<open>get_\<close> method returned, \<open>None\<close>
  included.
\<close>

definition AdminBoundaryReadSerializer_to_representation ::
  "(string \<Rightarrow> json) \<Rightarrow> request_context \<Rightarrow> admin_boundary \<Rightarrow> (string \<times> json) list" where
  "AdminBoundaryReadSerializer_to_representation json_loads ctx obj =
     [(''osm_id'', JStr (boundary_osm_id obj)),
      (''name'', JStr (boundary_name obj)),
      (''parent'', AdminBoundaryReadSerializer_get_parent obj),
      (''level'', JNum (boundary_level obj)),
      (''aliases'', AdminBoundaryReadSerializer_get_aliases obj),
      (''geometry'', AdminBoundaryReadSerializer_get_geometry json_loads ctx obj)]"


section \<open>BroadcastWriteSerializer\<close>

text \<open>
  The validated data: \<open>text\<close> is required, the other fields are optional, so their
  keys may be missing.
\<close>

record broadcast_data =
  bd_text :: string
  bd_urns :: "string list option"
  bd_contacts :: "contact list option"
  bd_groups :: "contact_group list option"
  bd_channel :: "channel option"

text \<open>
  \<^verbatim>\<open>
  def validate(self, data):
      if self.context['org'].is_suspended():
          raise serializers.ValidationError("Sorry, your account is currently suspended. "
                                            "To enable sending messages, please contact support.")

      if not (data.get('urns') or data.get('contacts') or data.get('groups')):
          raise serializers.ValidationError("Must provide either urns, contacts or groups")

      return data
  \<close>
\<close>

definition BroadcastWriteSerializer_validate ::
  "request_context \<Rightarrow> broadcast_data \<Rightarrow> broadcast_data result" where
  "BroadcastWriteSerializer_validate ctx data =
     (if org_is_suspended (ctx_org ctx)
      then Inl (ValidationError
        (''Sorry, your account is currently suspended. '' @
         ''To enable sending messages, please contact support.''))
      else if \<not> (truthy_seq (bd_urns data) \<or> truthy_seq (bd_contacts data)
                  \<or> truthy_seq (bd_groups data))
      then Inl (ValidationError ''Must provide either urns, contacts or groups'')
      else Inr data)"


section \<open>CampaignEventWriteSerializer\<close>

text \<open>
  The validated data: \<open>message\<close> and \<open>flow\<close> are optional; \<open>unit\<close> is the internal
  code that \<open>validate_unit\<close> returned.
\<close>

record campaign_event_data =
  ce_campaign :: campaign
  ce_offset :: int
  ce_unit :: string
  ce_delivery_hour :: int
  ce_relative_to :: contact_field
  ce_message :: "string option"
  ce_flow :: "flow option"

text \<open>
  \<^verbatim>\<open>
  def validate_campaign(self, value):
      if self.instance and value and self.instance.campaign != value:
          raise serializers.ValidationError("Cannot change campaign for existing events")

      return value
  \<close>
  \<open>instance\<close> is \<open>self.instance\<close>, \<open>None\<close> when the serializer creates an event.
\<close>

definition CampaignEventWriteSerializer_validate_campaign ::
  "campaign_event option \<Rightarrow> campaign option \<Rightarrow> campaign option result" where
  "CampaignEventWriteSerializer_validate_campaign instance val =
     (case (instance, val) of
        (Some inst, Some c) \<Rightarrow>
          if campaign_pk (event_campaign inst) \<noteq> campaign_pk c
          then Inl (ValidationError ''Cannot change campaign for existing events'')
          else Inr val
      | _ \<Rightarrow> Inr val)"

text \<open>
  \<^verbatim>\<open>
  def validate(self, data):
      message = data.get('message')
      flow = data.get('flow')

      if (message and flow) or (not message and not flow):
          raise serializers.ValidationError("Flow UUID or a message text required.")

      return data
  \<close>
\<close>

definition CampaignEventWriteSerializer_validate ::
  "campaign_event_data \<Rightarrow> campaign_event_data result" where
  "CampaignEventWriteSerializer_validate data =
     (let message = ce_message data; flow = ce_flow data
      in if (truthy_seq message \<and> truthy_obj flow) \<or> (\<not> truthy_seq message \<and> \<not> truthy_obj flow)
         then Inl (ValidationError ''Flow UUID or a message text required.'')
         else Inr data)"

text \<open>
  The methods of the model layer that \<open>save\<close> calls: \<open>Flow.create_single_message\<close>,
  \<open>flow.update_single_message_flow\<close>, \<open>event.update_flow_name\<close>,
  \<open>CampaignEvent.create_flow_event\<close> and \<open>CampaignEvent.create_message_event\<close>. A
  method that changes its object returns the changed object.
\<close>

record campaign_event_models =
  Flow_create_single_message :: "org \<Rightarrow> user \<Rightarrow> string option \<Rightarrow> flow"
  update_single_message_flow :: "flow \<Rightarrow> string option \<Rightarrow> flow"
  update_flow_name :: "campaign_event \<Rightarrow> campaign_event"
  create_flow_event ::
    "org \<Rightarrow> user \<Rightarrow> campaign \<Rightarrow> contact_field \<Rightarrow> int \<Rightarrow> string \<Rightarrow> flow \<Rightarrow> int \<Rightarrow> campaign_event"
  create_message_event ::
    "org \<Rightarrow> user \<Rightarrow> campaign \<Rightarrow> contact_field \<Rightarrow> int \<Rightarrow> string \<Rightarrow> string option \<Rightarrow> int
       \<Rightarrow> campaign_event"

text \<open>
  \<^verbatim>\<open>
  def save(self):
      campaign = self.validated_data.get('campaign')
      offset = self.validated_data.get('offset')
      unit = self.validated_data.get('unit')
      delivery_hour = self.validated_data.get('delivery_hour')
      relative_to = self.validated_data.get('relative_to')
      message = self.validated_data.get('message')
      flow = self.validated_data.get('flow')

      if self.instance:
          if flow:
              self.instance.flow = flow
              self.instance.event_type = CampaignEvent.TYPE_FLOW
              self.instance.message = None
          else:
              self.instance.message = message
              if self.instance.event_type != CampaignEvent.TYPE_MESSAGE:
                  self.instance.flow = Flow.create_single_message(self.context['org'],
                                                                  self.context['user'], message)
                  self.instance.event_type = CampaignEvent.TYPE_MESSAGE
              else:
                  self.instance.flow.update_single_message_flow(message=message)

          self.instance.offset = offset
          self.instance.unit = unit
          self.instance.delivery_hour = delivery_hour
          self.instance.relative_to = relative_to
          self.instance.save()
          self.instance.update_flow_name()
      else:
          if flow:
              self.instance = CampaignEvent.create_flow_event(self.context['org'],
                  self.context['user'], campaign, relative_to, offset, unit, flow, delivery_hour)
          else:
              self.instance = CampaignEvent.create_message_event(self.context['org'],
                  self.context['user'], campaign, relative_to, offset, unit, message, delivery_hour)
          self.instance.update_flow_name()

      return self.instance
  \<close>
  The result is the instance that \<open>save\<close> returns; \<open>self.instance.save()\<close> stores its
  attributes as they are at that point.
\<close>

definition CampaignEventWriteSerializer_save ::
  "campaign_event_models \<Rightarrow> request_context \<Rightarrow> campaign_event option \<Rightarrow> campaign_event_data
     \<Rightarrow> campaign_event" where
  "CampaignEventWriteSerializer_save M ctx instance data =
     (let campaign = ce_campaign data; offset = ce_offset data; unit = ce_unit data;
          delivery_hour = ce_delivery_hour data; relative_to = ce_relative_to data;
          message = ce_message data; flow = ce_flow data
      in case instance of
           Some inst \<Rightarrow>
             let inst1 =
                   (case flow of
                      Some f \<Rightarrow>
                        inst\<lparr>event_flow := f, event_event_type := TYPE_FLOW, event_message := None\<rparr>
                    | None \<Rightarrow>
                        let inst0 = inst\<lparr>event_message := message\<rparr>
                        in if event_event_type inst0 \<noteq> TYPE_MESSAGE
                           then inst0\<lparr>event_flow :=
                                         Flow_create_single_message M (ctx_org ctx) (ctx_user ctx) message,
                                       event_event_type := TYPE_MESSAGE\<rparr>
                           else inst0\<lparr>event_flow :=
                                         update_single_message_flow M (event_flow inst0) message\<rparr>);
                 inst2 = inst1\<lparr>event_offset := offset, event_unit := unit,
                               event_delivery_hour := delivery_hour,
                               event_relative_to := relative_to\<rparr>
             in update_flow_name M inst2
         | None \<Rightarrow>
             update_flow_name M
               (case flow of
                  Some f \<Rightarrow>
                    create_flow_event M (ctx_org ctx) (ctx_user ctx) campaign relative_to offset unit
                      f delivery_hour
                | None \<Rightarrow>
                    create_message_event M (ctx_org ctx) (ctx_user ctx) campaign relative_to offset
                      unit message delivery_hour))"


section \<open>ContactReadSerializer\<close>

text \<open>
  \<^verbatim>\<open>
  def get_name(self, obj):
      return obj.name if obj.is_active else None

  def get_language(self, obj):
      return obj.language if obj.is_active else None

  def get_urns(self, obj):
      if self.context['org'].is_anon or not obj.is_active:
          return []
      return [urn.urn for urn in obj.get_urns()]

  def get_groups(self, obj):
      if not obj.is_active:
          return []
      groups = (obj.prefetched_user_groups if hasattr(obj, 'prefetched_user_groups')
                else obj.user_groups.all())
      return [{'uuid': g.uuid, 'name': g.name} for g in groups]

  def get_contact_fields(self, obj):
      if not obj.is_active:
          return {}
      fields = {}
      for contact_field in self.context['contact_fields']:
          value = obj.get_field(contact_field.key)
          fields[contact_field.key] = Contact.serialize_field_value(contact_field, value)
      return fields

  def get_blocked(self, obj):
      return obj.is_blocked if obj.is_active else None

  def get_stopped(self, obj):
      return obj.is_stopped if obj.is_active else None

  class Meta:
      fields = ('uuid', 'name', 'language', 'urns', 'groups', 'fields', 'blocked', 'stopped',
                'created_on', 'modified_on')
  \<close>
  \<open>obj.get_field\<close> and \<open>Contact.serialize_field_value\<close> are the parameters
  \<open>get_field\<close> and \<open>serialize_field_value\<close>.
\<close>

definition ContactReadSerializer_get_name :: "contact \<Rightarrow> json" where
  "ContactReadSerializer_get_name obj =
     (if contact_is_active obj then json_text (contact_name obj) else JNull)"

definition ContactReadSerializer_get_language :: "contact \<Rightarrow> json" where
  "ContactReadSerializer_get_language obj =
     (if contact_is_active obj then json_text (contact_language obj) else JNull)"

definition ContactReadSerializer_get_urns :: "request_context \<Rightarrow> contact \<Rightarrow> json" where
  "ContactReadSerializer_get_urns ctx obj =
     (if org_is_anon (ctx_org ctx) \<or> \<not> contact_is_active obj then JArr []
      else JArr (map JStr (contact_urns obj)))"

definition ContactReadSerializer_get_groups :: "contact \<Rightarrow> json" where
  "ContactReadSerializer_get_groups obj =
     (if \<not> contact_is_active obj then JArr []
      else let groups = (case contact_prefetched_user_groups obj of
                           Some gs \<Rightarrow> gs
                         | None \<Rightarrow> contact_user_groups obj)
           in JArr (map (\<lambda>g. JObj [(''uuid'', JStr (group_uuid g)), (''name'', JStr (group_name g))])
                        groups))"

definition ContactReadSerializer_get_contact_fields ::
  "(contact \<Rightarrow> string \<Rightarrow> 'v) \<Rightarrow> (contact_field \<Rightarrow> 'v \<Rightarrow> json) \<Rightarrow> request_context \<Rightarrow> contact \<Rightarrow> json"
  where
  "ContactReadSerializer_get_contact_fields get_field serialize_field_value ctx obj =
     (if \<not> contact_is_active obj then JObj []
      else JObj (fold (\<lambda>cf fields.
                         AList.update (field_key cf)
                           (serialize_field_value cf (get_field obj (field_key cf))) fields)
                      (ctx_contact_fields ctx) []))"

definition ContactReadSerializer_get_blocked :: "contact \<Rightarrow> json" where
  "ContactReadSerializer_get_blocked obj =
     (if contact_is_active obj then JBool (contact_is_blocked obj) else JNull)"

definition ContactReadSerializer_get_stopped :: "contact \<Rightarrow> json" where
  "ContactReadSerializer_get_stopped obj =
     (if contact_is_active obj then JBool (contact_is_stopped obj) else JNull)"

definition ContactReadSerializer_to_representation ::
  "(contact \<Rightarrow> string \<Rightarrow> 'v) \<Rightarrow> (contact_field \<Rightarrow> 'v \<Rightarrow> json) \<Rightarrow> request_context \<Rightarrow> contact
     \<Rightarrow> (string \<times> json) list" where
  "ContactReadSerializer_to_representation get_field serialize_field_value ctx obj =
     [(''uuid'', JStr (contact_uuid obj)),
      (''name'', ContactReadSerializer_get_name obj),
      (''language'', ContactReadSerializer_get_language obj),
      (''urns'', ContactReadSerializer_get_urns ctx obj),
      (''groups'', ContactReadSerializer_get_groups obj),
      (''fields'', ContactReadSerializer_get_contact_fields get_field serialize_field_value ctx obj),
      (''blocked'', ContactReadSerializer_get_blocked obj),
      (''stopped'', ContactReadSerializer_get_stopped obj),
      (''created_on'', JStr (contact_created_on obj)),
      (''modified_on'', JStr (contact_modified_on obj))]"


section \<open>ContactWriteSerializer\<close>

text \<open>
  The validated data. Every field is optional; \<open>name\<close> and \<open>language\<close> may also be
  present with the value \<open>None\<close> (\<open>allow_null\<close>).
\<close>

record contact_data =
  cd_name :: "string option option"
  cd_language :: "string option option"
  cd_urns :: "string list option"
  cd_groups :: "contact_group list option"
  cd_fields :: "(string \<times> json) list option"

text \<open>
  \<^verbatim>\<open>
  def validate_urns(self, value):
      org = self.context['org']

      # this field isn't allowed if we are looking up by URN in the URL
      if 'urns__urn' in self.context['lookup_values']:
          raise serializers.ValidationError("Field not allowed when using URN in URL")

      # or for updates by anonymous organizations (we do allow creation of contacts with URNs)
      if org.is_anon and self.instance:
          raise serializers.ValidationError("Updating URNs not allowed for anonymous organizations")

      # if creating a contact, URNs can't belong to other contacts
      if not self.instance:
          for urn in value:
              if Contact.from_urn(org, urn):
                  raise serializers.ValidationError("URN belongs to another contact: %s" % urn)

      return value
  \<close>
  \<open>Contact.from_urn\<close> is the parameter \<open>from_urn\<close>: the contact of the org that owns
  the URN, or \<open>None\<close>. The loop raises at the first URN that has an owner.
\<close>

definition ContactWriteSerializer_validate_urns ::
  "(org \<Rightarrow> string \<Rightarrow> contact option) \<Rightarrow> request_context \<Rightarrow> contact option \<Rightarrow> string list
     \<Rightarrow> string list result" where
  "ContactWriteSerializer_validate_urns from_urn ctx instance val =
     (let org = ctx_org ctx
      in if map_of (ctx_lookup_values ctx) ''urns__urn'' \<noteq> None
         then Inl (ValidationError ''Field not allowed when using URN in URL'')
         else if org_is_anon org \<and> truthy_obj instance
         then Inl (ValidationError ''Updating URNs not allowed for anonymous organizations'')
         else if \<not> truthy_obj instance
         then (case find (\<lambda>urn. truthy_obj (from_urn org urn)) val of
                 Some urn \<Rightarrow> Inl (ValidationError (''URN belongs to another contact: '' @ urn))
               | None \<Rightarrow> Inr val)
         else Inr val)"

text \<open>
  \<^verbatim>\<open>
  def validate(self, data):
      # we allow creation of contacts by URN used for lookup
      if not data.get('urns') and 'urns__urn' in self.context['lookup_values']:
          url_urn = self.context['lookup_values']['urns__urn']

          data['urns'] = [fields.validate_urn(url_urn)]

      return data
  \<close>
  \<open>fields.validate_urn\<close> is the parameter \<open>validate_urn\<close>: it returns the normalized
  URN or raises a validation error.
\<close>

definition ContactWriteSerializer_validate ::
  "(string \<Rightarrow> string result) \<Rightarrow> request_context \<Rightarrow> contact_data \<Rightarrow> contact_data result" where
  "ContactWriteSerializer_validate validate_urn ctx data =
     (if \<not> truthy_seq (cd_urns data)
      then (case map_of (ctx_lookup_values ctx) ''urns__urn'' of
              Some url_urn \<Rightarrow>
                (case validate_urn url_urn of
                   Inl e \<Rightarrow> Inl e
                 | Inr urn \<Rightarrow> Inr (data\<lparr>cd_urns := Some [urn]\<rparr>))
            | None \<Rightarrow> Inr data)
      else Inr data)"


text \<open>
  The methods of the model layer that \<open>save\<close> calls: \<open>Contact.get_or_create\<close>,
  \<open>contact.update_urns\<close>, \<open>contact.save(update_fields=...)\<close>, \<open>contact.set_field\<close>
  and \<open>contact.update_static_groups\<close>. A method that changes its object returns the
  changed object.
\<close>

record contact_models =
  Contact_get_or_create ::
    "org \<Rightarrow> user \<Rightarrow> string option \<Rightarrow> string list option \<Rightarrow> string option \<Rightarrow> contact"
  Contact_update_urns :: "contact \<Rightarrow> user \<Rightarrow> string list \<Rightarrow> contact"
  Contact_save :: "contact \<Rightarrow> string list \<Rightarrow> contact"
  Contact_set_field :: "contact \<Rightarrow> user \<Rightarrow> string \<Rightarrow> json \<Rightarrow> contact"
  Contact_update_static_groups :: "contact \<Rightarrow> user \<Rightarrow> contact_group list \<Rightarrow> contact"

text \<open>
  \<open>validated_data.get(key)\<close> for a field that may be missing or hold \<open>None\<close>: \<open>None\<close>
  in both cases.
\<close>

definition dict_get :: "'a option option \<Rightarrow> 'a option" where
  "dict_get v = (case v of None \<Rightarrow> None | Some x \<Rightarrow> x)"

text \<open>
  \<^verbatim>\<open>
  def save(self):
      name = self.validated_data.get('name')
      language = self.validated_data.get('language')
      urns = self.validated_data.get('urns')
      groups = self.validated_data.get('groups')
      custom_fields = self.validated_data.get('fields')

      changed = []

      if self.instance:
          # update our name and language
          if 'name' in self.validated_data and name != self.instance.name:
              self.instance.name = name
              changed.append('name')
          if 'language' in self.validated_data and language != self.instance.language:
              self.instance.language = language
              changed.append('language')

          if 'urns' in self.validated_data and urns is not None:
              self.instance.update_urns(self.context['user'], urns)

          if changed:
              self.instance.save(update_fields=changed)
      else:
          self.instance = Contact.get_or_create(self.context['org'], self.context['user'], name,
                                                urns=urns, language=language)

      # update our fields
      if custom_fields is not None:
          for key, value in six.iteritems(custom_fields):
              self.instance.set_field(self.context['user'], key, value)

      # update our groups
      if groups is not None:
          self.instance.update_static_groups(self.context['user'], groups)

      return self.instance
  \<close>
  The result is the instance that \<open>save\<close> returns. The entries of \<open>custom_fields\<close> are
  visited in the order of the association list.
\<close>

definition ContactWriteSerializer_save ::
  "contact_models \<Rightarrow> request_context \<Rightarrow> contact option \<Rightarrow> contact_data \<Rightarrow> contact" where
  "ContactWriteSerializer_save M ctx instance data =
     (let name = dict_get (cd_name data); language = dict_get (cd_language data);
          urns = cd_urns data; groups = cd_groups data; custom_fields = cd_fields data;
          inst1 =
            (case instance of
               Some inst \<Rightarrow>
                 let (i1, changed1) =
                       (if cd_name data \<noteq> None \<and> name \<noteq> contact_name inst
                        then (inst\<lparr>contact_name := name\<rparr>, [''name''])
                        else (inst, []));
                     (i2, changed2) =
                       (if cd_language data \<noteq> None \<and> language \<noteq> contact_language i1
                        then (i1\<lparr>contact_language := language\<rparr>, changed1 @ [''language''])
                        else (i1, changed1));
                     i3 = (case urns of
                             Some us \<Rightarrow> Contact_update_urns M i2 (ctx_user ctx) us
                           | None \<Rightarrow> i2)
                 in if changed2 \<noteq> [] then Contact_save M i3 changed2 else i3
             | None \<Rightarrow>
                 Contact_get_or_create M (ctx_org ctx) (ctx_user ctx) name urns language);
          inst2 =
            (case custom_fields of
               Some fs \<Rightarrow> fold (\<lambda>(key, v) i. Contact_set_field M i (ctx_user ctx) key v) fs inst1
             | None \<Rightarrow> inst1)
      in case groups of
           Some gs \<Rightarrow> Contact_update_static_groups M inst2 (ctx_user ctx) gs
         | None \<Rightarrow> inst2)"


section \<open>MsgReadSerializer\<close>

text \<open>
  \<^verbatim>\<open>
  STATUSES = extract_constants(STATUS_CONFIG)

  def get_status(self, obj):
      # PENDING and QUEUED are same as far as users are concerned
      return self.STATUSES.get(QUEUED if obj.status == PENDING else obj.status)
  \<close>
  \<open>STATUS_CONFIG\<close>, \<open>PENDING\<close> and \<open>QUEUED\<close> are constants of the messages module,
  taken as parameters. The result is \<open>None\<close> for a status that the table does not hold.
\<close>

definition MsgReadSerializer_get_status ::
  "(string \<times> string \<times> string) list \<Rightarrow> string \<Rightarrow> string \<Rightarrow> msg \<Rightarrow> string option" where
  "MsgReadSerializer_get_status STATUS_CONFIG PENDING QUEUED obj =
     (let STATUSES = extract_constants STATUS_CONFIG False
      in STATUSES (if msg_status obj = PENDING then QUEUED else msg_status obj))"


section \<open>The constant tables\<close>

lemma fold_upd_unique:
  "t \<in> set xs \<Longrightarrow> distinct (map kf xs) \<Longrightarrow>
   fold (\<lambda>t d. d(kf t \<mapsto> vf t)) xs d (kf t) = Some (vf t)"
proof (induction xs rule: rev_induct)
  case Nil
  then show ?case by simp
next
  case (snoc x xs)
  show ?case
  proof (cases "t = x")
    case True
    then show ?thesis by simp
  next
    case False
    with snoc.prems have mem: "t \<in> set xs" and dist: "distinct (map kf xs)"
      and "kf x \<notin> kf ` set xs" by auto
    then have "kf t \<noteq> kf x" by (metis imageI)
    with snoc.IH [OF mem dist] show ?thesis by simp
  qed
qed

text \<open>
  C6. In a constant config whose internal codes are pairwise distinct and whose API codes
  are pairwise distinct, every entry \<open>(c, l, a)\<close> has its internal code \<open>c\<close> mapped to
  its API code \<open>a\<close> by \<open>extract_constants config\<close>, and \<open>a\<close> mapped back to \<open>c\<close> by
  \<open>extract_constants config reverse=True\<close>: looking \<open>c\<close> up in the forward table and the
  result in the reverse table gives \<open>c\<close> again.
\<close>

theorem extract_constants_round_trip:
  assumes "distinct (map fst config)"
    and "distinct (map (\<lambda>t. snd (snd t)) config)"
    and "(c, l, a) \<in> set config"
  shows "extract_constants config False c = Some a
       \<and> extract_constants config True a = Some c
       \<and> Option.bind (extract_constants config False c) (extract_constants config True) = Some c"
proof -
  have fwd: "extract_constants config False c = Some a"
    using fold_upd_unique [OF assms(3) assms(1), where vf = "\<lambda>t. snd (snd t)"]
    by (simp add: extract_constants_def)
  have bwd: "extract_constants config True a = Some c"
    using fold_upd_unique [OF assms(3) assms(2), where vf = fst]
    by (simp add: extract_constants_def)
  from fwd bwd show ?thesis by simp
qed

theorem extract_constants_round_trip_witness:
  "distinct (map fst [(''P'', ''Pending'', ''queued''), (''S'', ''Sent'', ''sent'')])
   \<and> distinct (map (\<lambda>t. snd (snd t)) [(''P'', ''Pending'', ''queued''), (''S'', ''Sent'', ''sent'')])
   \<and> (''S'', ''Sent'', ''sent'') \<in> set [(''P'', ''Pending'', ''queued''), (''S'', ''Sent'', ''sent'')]
   \<and> extract_constants [(''P'', ''Pending'', ''queued''), (''S'', ''Sent'', ''sent'')] False ''S''
       = Some ''sent''
   \<and> extract_constants [(''P'', ''Pending'', ''queued''), (''S'', ''Sent'', ''sent'')] True ''sent''
       = Some ''S''
   \<and> Option.bind
        (extract_constants [(''P'', ''Pending'', ''queued''), (''S'', ''Sent'', ''sent'')] False ''S'')
        (extract_constants [(''P'', ''Pending'', ''queued''), (''S'', ''Sent'', ''sent'')] True)
       = Some ''S''"
  using extract_constants_round_trip
    [of "[(''P'', ''Pending'', ''queued''), (''S'', ''Sent'', ''sent'')]" "''S''" "''Sent''" "''sent''"]
  by simp

section \<open>Truth values by cases\<close>

lemma truthy_obj_iff: "truthy_obj v \<longleftrightarrow> v \<noteq> None"
  by (cases v) (simp_all add: truthy_obj_def)

lemma truthy_seq_iff: "truthy_seq v \<longleftrightarrow> v \<noteq> None \<and> v \<noteq> Some []"
  by (cases v) (simp_all add: truthy_seq_def)


section \<open>The shape of a request body\<close>

text \<open>
  C4. A request body that is not a JSON object (an array, a scalar, null, or no body at
  all) makes \<open>run_validation\<close> raise the validation error whose detail holds the one
  key \<open>non_field_errors\<close>. The result is the same for every field-by-field validation
  \<open>super_run_validation\<close>: it is not consulted. A body that is an object is handed to
  the field-by-field validation, whose result is returned.
\<close>

theorem run_validation_rejects_non_objects:
  "((\<forall>d. data \<noteq> Some (JObj d)) \<longrightarrow>
      run_validation super_run_validation data =
        Inl (ValidationErrorDetail
               [(''non_field_errors'', [''Request body should be a single JSON object''])]))
   \<and> run_validation super_run_validation (Some (JObj d)) = super_run_validation d"
proof (cases data)
  case None
  then show ?thesis by (simp add: run_validation_def)
next
  case (Some v)
  then show ?thesis by (cases v) (simp_all add: run_validation_def)
qed

theorem run_validation_rejects_non_objects_witness:
  "(\<forall>d. Some (JArr [JNum 1, JNum 2]) \<noteq> Some (JObj d))
   \<and> run_validation (\<lambda>d. Inr (length d)) (Some (JArr [JNum 1, JNum 2]))
       = Inl (ValidationErrorDetail
                [(''non_field_errors'', [''Request body should be a single JSON object''])])
   \<and> run_validation (\<lambda>d. Inr (length d)) (Some (JObj [(''name'', JStr ''VIPs'')])) = Inr 1"
  using run_validation_rejects_non_objects
    [of "Some (JArr [JNum 1, JNum 2])" "\<lambda>d. Inr (length d)" "[(''name'', JStr ''VIPs'')]"]
  by simp


section \<open>Admin boundaries\<close>

text \<open>
  C8, as the code has it. When the context does not ask for the geometry, or the boundary
  has no simplified geometry, the rendered boundary still has the entry \<open>geometry\<close>, and
  its value is \<open>None\<close>. The entry \<open>parent\<close> holds the parent's \<open>osm_id\<close> and \<open>name\<close>
  when the boundary has a parent, and \<open>None\<close> when it has none.
\<close>

theorem admin_boundary_geometry_and_parent:
  "(\<not> ctx_include_geometry ctx \<or> boundary_simplified_geometry obj = None \<longrightarrow>
      map_of (AdminBoundaryReadSerializer_to_representation json_loads ctx obj) ''geometry''
        = Some JNull)
   \<and> (\<forall>p. boundary_parent obj = Some p \<longrightarrow>
        map_of (AdminBoundaryReadSerializer_to_representation json_loads ctx obj) ''parent''
          = Some (JObj [(''osm_id'', JStr (boundary_osm_id p)), (''name'', JStr (boundary_name p))]))
   \<and> (boundary_parent obj = None \<longrightarrow>
        map_of (AdminBoundaryReadSerializer_to_representation json_loads ctx obj) ''parent''
          = Some JNull)"
proof -
  have geometry: "AdminBoundaryReadSerializer_get_geometry json_loads ctx obj = JNull"
    if "\<not> ctx_include_geometry ctx \<or> boundary_simplified_geometry obj = None"
    using that
    by (auto simp add: AdminBoundaryReadSerializer_get_geometry_def truthy_geometry_def)
  have parent: "AdminBoundaryReadSerializer_get_parent obj =
      (case boundary_parent obj of
         Some p \<Rightarrow> JObj [(''osm_id'', JStr (boundary_osm_id p)), (''name'', JStr (boundary_name p))]
       | None \<Rightarrow> JNull)"
    by (simp add: AdminBoundaryReadSerializer_get_parent_def)
  from geometry parent show ?thesis
    by (simp add: AdminBoundaryReadSerializer_to_representation_def)
qed

theorem admin_boundary_geometry_and_parent_witness:
  "let ctx = \<lparr>ctx_org = \<lparr>org_id = 1, org_is_anon = False, org_is_suspended = False\<rparr>,
               ctx_user = ''admin'', ctx_lookup_values = [], ctx_contact_fields = [],
               ctx_include_geometry = False\<rparr>;
       country = AdminBoundary ''R171496'' ''Rwanda'' None 0 [] None;
       state = AdminBoundary ''R1708283'' ''Kigali City'' (Some country) 1 [''Kigali'']
                 (Some \<lparr>geojson = ''{}'', num_geom = 1\<rparr>);
       out = map_of (AdminBoundaryReadSerializer_to_representation JStr ctx state);
       top = map_of (AdminBoundaryReadSerializer_to_representation JStr ctx country)
   in \<not> ctx_include_geometry ctx \<and> boundary_parent state = Some country
      \<and> boundary_parent country = None
      \<and> out ''geometry'' = Some JNull
      \<and> out ''parent'' = Some (JObj [(''osm_id'', JStr ''R171496''), (''name'', JStr ''Rwanda'')])
      \<and> top ''parent'' = Some JNull"
  (is "let ctx = ?C; country = ?P; state = _; out = _; top = _ in _")
  using admin_boundary_geometry_and_parent
      [of ?C "AdminBoundary ''R1708283'' ''Kigali City'' (Some ?P) 1 [''Kigali'']
                (Some \<lparr>geojson = ''{}'', num_geom = 1\<rparr>)" JStr]
    admin_boundary_geometry_and_parent [of ?C ?P JStr]
  by (simp add: Let_def)

text \<open>
  A boundary rendered without \<open>include_geometry\<close>: \<open>geometry\<close> is one of the keys of the
  output, with the value \<open>None\<close>. The key is not left out.
\<close>

theorem admin_boundary_geometry_omitted_counterexample:
  "''geometry'' \<in> fst ` set (AdminBoundaryReadSerializer_to_representation JStr
      \<lparr>ctx_org = \<lparr>org_id = 1, org_is_anon = False, org_is_suspended = False\<rparr>,
       ctx_user = ''admin'', ctx_lookup_values = [], ctx_contact_fields = [],
       ctx_include_geometry = False\<rparr>
      (AdminBoundary ''R171496'' ''Rwanda'' None 0 []
         (Some \<lparr>geojson = ''{}'', num_geom = 1\<rparr>)))
   \<and> map_of (AdminBoundaryReadSerializer_to_representation JStr
      \<lparr>ctx_org = \<lparr>org_id = 1, org_is_anon = False, org_is_suspended = False\<rparr>,
       ctx_user = ''admin'', ctx_lookup_values = [], ctx_contact_fields = [],
       ctx_include_geometry = False\<rparr>
      (AdminBoundary ''R171496'' ''Rwanda'' None 0 []
         (Some \<lparr>geojson = ''{}'', num_geom = 1\<rparr>))) ''geometry'' = Some JNull"
  by (simp add: AdminBoundaryReadSerializer_to_representation_def
      AdminBoundaryReadSerializer_get_geometry_def)


section \<open>Broadcasts\<close>

text \<open>
  C3. \<open>BroadcastWriteSerializer.validate\<close> raises when the org of the context is
  suspended, whatever the data holds; it raises when each of \<open>urns\<close>, \<open>contacts\<close> and
  \<open>groups\<close> is missing or empty; and when the org is not suspended and one of the three
  is present and not empty, it returns the data as it received it.
\<close>

theorem broadcast_validate_policy:
  "(org_is_suspended (ctx_org ctx) \<longrightarrow> isl (BroadcastWriteSerializer_validate ctx data))
   \<and> ((bd_urns data = None \<or> bd_urns data = Some [])
        \<and> (bd_contacts data = None \<or> bd_contacts data = Some [])
        \<and> (bd_groups data = None \<or> bd_groups data = Some [])
        \<longrightarrow> isl (BroadcastWriteSerializer_validate ctx data))
   \<and> (\<not> org_is_suspended (ctx_org ctx)
        \<and> \<not> ((bd_urns data = None \<or> bd_urns data = Some [])
             \<and> (bd_contacts data = None \<or> bd_contacts data = Some [])
             \<and> (bd_groups data = None \<or> bd_groups data = Some []))
        \<longrightarrow> BroadcastWriteSerializer_validate ctx data = Inr data)"
  by (auto simp add: BroadcastWriteSerializer_validate_def truthy_seq_iff)

theorem broadcast_validate_policy_witness:
  "let suspended = \<lparr>ctx_org = \<lparr>org_id = 1, org_is_anon = False, org_is_suspended = True\<rparr>,
                     ctx_user = ''admin'', ctx_lookup_values = [], ctx_contact_fields = [],
                     ctx_include_geometry = False\<rparr>;
       active = \<lparr>ctx_org = \<lparr>org_id = 2, org_is_anon = False, org_is_suspended = False\<rparr>,
                  ctx_user = ''admin'', ctx_lookup_values = [], ctx_contact_fields = [],
                  ctx_include_geometry = False\<rparr>;
       to_urn = \<lparr>bd_text = ''hello'', bd_urns = Some [''tel:+250788123123''], bd_contacts = None,
                  bd_groups = None, bd_channel = None\<rparr>;
       to_nobody = \<lparr>bd_text = ''hello'', bd_urns = None, bd_contacts = Some [],
                     bd_groups = None, bd_channel = None\<rparr>
   in org_is_suspended (ctx_org suspended)
      \<and> isl (BroadcastWriteSerializer_validate suspended to_urn)
      \<and> bd_urns to_nobody = None \<and> bd_contacts to_nobody = Some [] \<and> bd_groups to_nobody = None
      \<and> isl (BroadcastWriteSerializer_validate active to_nobody)
      \<and> \<not> org_is_suspended (ctx_org active) \<and> bd_urns to_urn = Some [''tel:+250788123123'']
      \<and> BroadcastWriteSerializer_validate active to_urn = Inr to_urn"
  (is "let suspended = ?S; active = ?A; to_urn = ?U; to_nobody = ?N in _")
  using broadcast_validate_policy [of ?S ?U] broadcast_validate_policy [of ?A ?N]
    broadcast_validate_policy [of ?A ?U]
  by (simp add: Let_def)


section \<open>Campaign events\<close>

text \<open>
  C1. \<open>CampaignEventWriteSerializer.validate\<close> raises exactly when \<open>message\<close> and
  \<open>flow\<close> are both set or both not set, where a message is set when it is present and
  not the empty text. The field \<open>message\<close> is a \<open>CharField\<close> that does not accept
  blank text, so in validated data a message that is present is never empty: there the
  error is raised exactly when both keys are present or both are missing. Whenever
  \<open>validate\<close> does not raise, it returns the data as it received it.
\<close>

theorem campaign_event_validate_exactly_one:
  "(isl (CampaignEventWriteSerializer_validate data)
      \<longleftrightarrow> (ce_message data \<notin> {None, Some []} \<and> ce_flow data \<noteq> None)
          \<or> (ce_message data \<in> {None, Some []} \<and> ce_flow data = None))
   \<and> (ce_message data \<noteq> Some [] \<longrightarrow>
        (isl (CampaignEventWriteSerializer_validate data)
           \<longleftrightarrow> (ce_message data \<noteq> None \<and> ce_flow data \<noteq> None)
               \<or> (ce_message data = None \<and> ce_flow data = None)))
   \<and> (ce_message data \<noteq> Some [] \<and> (ce_message data = None) \<noteq> (ce_flow data = None) \<longrightarrow>
        CampaignEventWriteSerializer_validate data = Inr data)
   \<and> (\<not> isl (CampaignEventWriteSerializer_validate data) \<longrightarrow>
        CampaignEventWriteSerializer_validate data = Inr data)"
proof -
  let ?m = "ce_message data \<noteq> None \<and> ce_message data \<noteq> Some []"
  let ?f = "ce_flow data \<noteq> None"
  have raises: "isl (CampaignEventWriteSerializer_validate data) \<longleftrightarrow> (?m \<and> ?f) \<or> (\<not> ?m \<and> \<not> ?f)"
    by (simp add: CampaignEventWriteSerializer_validate_def Let_def truthy_seq_iff truthy_obj_iff)
  have returns: "CampaignEventWriteSerializer_validate data = Inr data"
    if "\<not> isl (CampaignEventWriteSerializer_validate data)"
    using that
    by (simp add: CampaignEventWriteSerializer_validate_def Let_def split: if_splits)
  from raises returns show ?thesis
    by auto
qed

theorem campaign_event_validate_exactly_one_witness:
  "let hi = \<lparr>ce_campaign = \<lparr>campaign_pk = 1, campaign_uuid = ''c-1'', campaign_name = ''Reminders''\<rparr>,
              ce_offset = 1, ce_unit = ''D'', ce_delivery_hour = - 1,
              ce_relative_to = \<lparr>field_key = ''joined'', field_label = ''Joined''\<rparr>,
              ce_message = Some ''hi'', ce_flow = None\<rparr>;
       both = hi\<lparr>ce_flow := Some \<lparr>flow_uuid = ''f-2'', flow_name = ''Survey''\<rparr>\<rparr>;
       neither = hi\<lparr>ce_message := None\<rparr>
   in ce_message hi \<noteq> Some []
      \<and> (ce_message hi = None) \<noteq> (ce_flow hi = None)
      \<and> \<not> isl (CampaignEventWriteSerializer_validate hi)
      \<and> CampaignEventWriteSerializer_validate hi = Inr hi
      \<and> ce_message both \<noteq> Some []
      \<and> isl (CampaignEventWriteSerializer_validate both)
      \<and> ce_message neither \<noteq> Some []
      \<and> isl (CampaignEventWriteSerializer_validate neither)"
proof -
  let ?hi = "\<lparr>ce_campaign = \<lparr>campaign_pk = 1, campaign_uuid = ''c-1'', campaign_name = ''Reminders''\<rparr>,
              ce_offset = 1, ce_unit = ''D'', ce_delivery_hour = - 1,
              ce_relative_to = \<lparr>field_key = ''joined'', field_label = ''Joined''\<rparr>,
              ce_message = Some ''hi'', ce_flow = None\<rparr>"
  let ?both = "?hi\<lparr>ce_flow := Some \<lparr>flow_uuid = ''f-2'', flow_name = ''Survey''\<rparr>\<rparr>"
  let ?neither = "?hi\<lparr>ce_message := None\<rparr>"
  have hi: "ce_message ?hi \<noteq> Some []" "(ce_message ?hi = None) \<noteq> (ce_flow ?hi = None)"
    by simp_all
  have both: "ce_message ?both \<noteq> Some []" "ce_message ?both \<noteq> None" "ce_flow ?both \<noteq> None"
    by simp_all
  have neither: "ce_message ?neither \<noteq> Some []" "ce_message ?neither = None"
    "ce_flow ?neither = None"
    by simp_all
  from hi campaign_event_validate_exactly_one [of ?hi]
  have r1: "CampaignEventWriteSerializer_validate ?hi = Inr ?hi"
    by blast
  then have r1': "\<not> isl (CampaignEventWriteSerializer_validate ?hi)"
    by (simp only: sum.disc simp_thms)
  from both campaign_event_validate_exactly_one [of ?both]
  have r2: "isl (CampaignEventWriteSerializer_validate ?both)"
    by blast
  from neither campaign_event_validate_exactly_one [of ?neither]
  have r3: "isl (CampaignEventWriteSerializer_validate ?neither)"
    by blast
  from hi both(1) neither(1) r1 r1' r2 r3 show ?thesis
    unfolding Let_def by blast
qed

text \<open>
  C9. When the serializer is bound to an existing event and the campaign supplied differs
  from the campaign of the event (their primary keys differ), \<open>validate_campaign\<close>
  raises. On an update, \<open>save\<close> assigns the flow, the event type, the message, the
  offset, the unit, the delivery hour and the field the event is relative to, and never
  the campaign: provided that \<open>update_flow_name\<close> of the model layer leaves the campaign
  of an event alone, the event that \<open>save\<close> returns has the campaign it had before.
\<close>

theorem campaign_of_existing_event_is_fixed:
  "(campaign_pk (event_campaign inst) \<noteq> campaign_pk c \<longrightarrow>
      CampaignEventWriteSerializer_validate_campaign (Some inst) (Some c)
        = Inl (ValidationError ''Cannot change campaign for existing events''))
   \<and> ((\<forall>e. event_campaign (update_flow_name M e) = event_campaign e) \<longrightarrow>
        event_campaign (CampaignEventWriteSerializer_save M ctx (Some inst) data)
          = event_campaign inst)"
proof -
  have rejects: "CampaignEventWriteSerializer_validate_campaign (Some inst) (Some c)
      = Inl (ValidationError ''Cannot change campaign for existing events'')"
    if "campaign_pk (event_campaign inst) \<noteq> campaign_pk c"
    using that by (simp add: CampaignEventWriteSerializer_validate_campaign_def)
  have keeps: "event_campaign (CampaignEventWriteSerializer_save M ctx (Some inst) data)
      = event_campaign inst"
    if "\<forall>e. event_campaign (update_flow_name M e) = event_campaign e"
    using that
    by (simp add: CampaignEventWriteSerializer_save_def Let_def split: option.splits)
  from rejects keeps show ?thesis
    by blast
qed

theorem campaign_of_existing_event_is_fixed_witness:
  "let reminders = \<lparr>campaign_pk = 1, campaign_uuid = ''c-1'', campaign_name = ''Reminders''\<rparr>;
       welcome = \<lparr>campaign_pk = 2, campaign_uuid = ''c-2'', campaign_name = ''Welcome''\<rparr>;
       joined = \<lparr>field_key = ''joined'', field_label = ''Joined''\<rparr>;
       inst = \<lparr>event_campaign = reminders, event_event_type = TYPE_MESSAGE,
                event_flow = \<lparr>flow_uuid = ''f-1'', flow_name = ''Single Message (1)''\<rparr>,
                event_message = Some ''hi'', event_offset = 1, event_unit = ''D'',
                event_delivery_hour = - 1, event_relative_to = joined\<rparr>;
       data = \<lparr>ce_campaign = welcome, ce_offset = 2, ce_unit = ''W'', ce_delivery_hour = 9,
                ce_relative_to = joined, ce_message = None,
                ce_flow = Some \<lparr>flow_uuid = ''f-2'', flow_name = ''Survey''\<rparr>\<rparr>;
       M = \<lparr>Flow_create_single_message =
               (\<lambda>org user message. \<lparr>flow_uuid = ''f-3'', flow_name = ''Single Message''\<rparr>),
             update_single_message_flow = (\<lambda>flow message. flow),
             update_flow_name =
               (\<lambda>e. if event_event_type e = TYPE_MESSAGE
                    then e\<lparr>event_flow := (event_flow e)\<lparr>flow_name := ''Single Message (1)''\<rparr>\<rparr>
                    else e),
             create_flow_event = (\<lambda>org user c r off u f h. inst),
             create_message_event = (\<lambda>org user c r off u m h. inst)\<rparr>;
       ctx = \<lparr>ctx_org = \<lparr>org_id = 1, org_is_anon = False, org_is_suspended = False\<rparr>,
               ctx_user = ''admin'', ctx_lookup_values = [], ctx_contact_fields = [],
               ctx_include_geometry = False\<rparr>
   in campaign_pk (event_campaign inst) \<noteq> campaign_pk welcome
      \<and> CampaignEventWriteSerializer_validate_campaign (Some inst) (Some welcome)
          = Inl (ValidationError ''Cannot change campaign for existing events'')
      \<and> (\<forall>e. event_campaign (update_flow_name M e) = event_campaign e)
      \<and> event_campaign (CampaignEventWriteSerializer_save M ctx (Some inst) data) = reminders"
  (is "let reminders = ?R; welcome = ?W; joined = ?J; inst = _; data = _; M = _; ctx = ?C in _")
proof -
  let ?inst = "\<lparr>event_campaign = ?R, event_event_type = TYPE_MESSAGE,
                event_flow = \<lparr>flow_uuid = ''f-1'', flow_name = ''Single Message (1)''\<rparr>,
                event_message = Some ''hi'', event_offset = 1, event_unit = ''D'',
                event_delivery_hour = - 1, event_relative_to = ?J\<rparr>"
  let ?data = "\<lparr>ce_campaign = ?W, ce_offset = 2, ce_unit = ''W'', ce_delivery_hour = 9,
                ce_relative_to = ?J, ce_message = None,
                ce_flow = Some \<lparr>flow_uuid = ''f-2'', flow_name = ''Survey''\<rparr>\<rparr>"
  let ?M = "\<lparr>Flow_create_single_message =
               (\<lambda>org user message. \<lparr>flow_uuid = ''f-3'', flow_name = ''Single Message''\<rparr>),
             update_single_message_flow = (\<lambda>flow message. flow),
             update_flow_name =
               (\<lambda>e. if event_event_type e = TYPE_MESSAGE
                    then e\<lparr>event_flow := (event_flow e)\<lparr>flow_name := ''Single Message (1)''\<rparr>\<rparr>
                    else e),
             create_flow_event = (\<lambda>org user c r off u f h. ?inst),
             create_message_event = (\<lambda>org user c r off u m h. ?inst)\<rparr>"
  have keeps: "\<forall>e. event_campaign (update_flow_name ?M e) = event_campaign e"
    by simp
  from keeps campaign_of_existing_event_is_fixed [of ?inst ?W ?M ?C ?data]
  show ?thesis
    by (simp add: Let_def)
qed


section \<open>Contacts\<close>

text \<open>
  C2. For a contact that is not active, the rendered contact has \<open>name\<close> and
  \<open>language\<close> \<open>None\<close>, \<open>urns\<close> and \<open>groups\<close> the empty list, \<open>fields\<close> the empty
  dictionary, and \<open>blocked\<close> and \<open>stopped\<close> \<open>None\<close>, whatever the contact stores for
  them, whatever the org and the contact fields of the context are, and whatever the
  model layer would return for its field values.
\<close>

theorem inactive_contact_is_blanked:
  assumes "\<not> contact_is_active obj"
  shows "map_of (ContactReadSerializer_to_representation get_field serialize_field_value ctx obj) ''name'' = Some JNull
       \<and> map_of (ContactReadSerializer_to_representation get_field serialize_field_value ctx obj) ''language'' = Some JNull
       \<and> map_of (ContactReadSerializer_to_representation get_field serialize_field_value ctx obj) ''urns'' = Some (JArr [])
       \<and> map_of (ContactReadSerializer_to_representation get_field serialize_field_value ctx obj) ''groups'' = Some (JArr [])
       \<and> map_of (ContactReadSerializer_to_representation get_field serialize_field_value ctx obj) ''fields'' = Some (JObj [])
       \<and> map_of (ContactReadSerializer_to_representation get_field serialize_field_value ctx obj) ''blocked'' = Some JNull
       \<and> map_of (ContactReadSerializer_to_representation get_field serialize_field_value ctx obj) ''stopped'' = Some JNull"
proof -
  from assms have methods:
    "ContactReadSerializer_get_name obj = JNull"
    "ContactReadSerializer_get_language obj = JNull"
    "ContactReadSerializer_get_urns ctx obj = JArr []"
    "ContactReadSerializer_get_groups obj = JArr []"
    "ContactReadSerializer_get_contact_fields get_field serialize_field_value ctx obj = JObj []"
    "ContactReadSerializer_get_blocked obj = JNull"
    "ContactReadSerializer_get_stopped obj = JNull"
    by (simp_all add: ContactReadSerializer_get_name_def ContactReadSerializer_get_language_def
        ContactReadSerializer_get_urns_def ContactReadSerializer_get_groups_def
        ContactReadSerializer_get_contact_fields_def ContactReadSerializer_get_blocked_def
        ContactReadSerializer_get_stopped_def)
  then show ?thesis
    by (simp add: ContactReadSerializer_to_representation_def)
qed

theorem inactive_contact_is_blanked_witness:
  "let ctx = \<lparr>ctx_org = \<lparr>org_id = 1, org_is_anon = False, org_is_suspended = False\<rparr>,
               ctx_user = ''admin'', ctx_lookup_values = [],
               ctx_contact_fields = [\<lparr>field_key = ''age'', field_label = ''Age''\<rparr>],
               ctx_include_geometry = False\<rparr>;
       obj = \<lparr>contact_uuid = ''u-1'', contact_name = Some ''Ann'', contact_language = Some ''eng'',
               contact_is_active = False, contact_is_blocked = True, contact_is_stopped = False,
               contact_urns = [''tel:+250788123123''],
               contact_prefetched_user_groups = None,
               contact_user_groups =
                 [\<lparr>group_uuid = ''g-1'', group_name = ''Customers'', group_is_dynamic = False\<rparr>],
               contact_created_on = ''2016-01-06T15:33:00.813162Z'',
               contact_modified_on = ''2016-01-06T15:35:03.675716Z''\<rparr>;
       out = map_of (ContactReadSerializer_to_representation (\<lambda>c key. ''34'')
                       (\<lambda>cf v. JStr v) ctx obj)
   in \<not> contact_is_active obj
      \<and> out ''name'' = Some JNull \<and> out ''language'' = Some JNull
      \<and> out ''urns'' = Some (JArr []) \<and> out ''groups'' = Some (JArr [])
      \<and> out ''fields'' = Some (JObj [])
      \<and> out ''blocked'' = Some JNull \<and> out ''stopped'' = Some JNull"
  (is "let ctx = ?C; obj = ?O; out = _ in _")
  using inactive_contact_is_blanked [of ?O "\<lambda>c key. ''34''" "\<lambda>cf v. JStr v" ?C]
  by (simp add: Let_def)

text \<open>
  C5. \<open>validate_urns\<close> raises "Field not allowed when using URN in URL" when the lookup
  values hold the key \<open>urns__urn\<close>. It raises when the org is anonymous and the
  serializer is bound to an existing contact. When it creates a contact (no instance), an
  anonymous org is no obstacle: with no URN in the URL and no supplied URN owned by a
  contact, it returns the URNs, and it raises as soon as one supplied URN is owned by a
  contact.
\<close>

theorem validate_urns_policy:
  "(map_of (ctx_lookup_values ctx) ''urns__urn'' \<noteq> None \<longrightarrow>
      ContactWriteSerializer_validate_urns from_urn ctx instance val =
        Inl (ValidationError ''Field not allowed when using URN in URL''))
   \<and> (org_is_anon (ctx_org ctx) \<and> instance \<noteq> None \<longrightarrow>
        isl (ContactWriteSerializer_validate_urns from_urn ctx instance val))
   \<and> (instance = None \<and> map_of (ctx_lookup_values ctx) ''urns__urn'' = None
        \<and> (\<forall>urn \<in> set val. from_urn (ctx_org ctx) urn = None) \<longrightarrow>
        ContactWriteSerializer_validate_urns from_urn ctx instance val = Inr val)
   \<and> (instance = None \<and> (\<exists>urn \<in> set val. from_urn (ctx_org ctx) urn \<noteq> None) \<longrightarrow>
        isl (ContactWriteSerializer_validate_urns from_urn ctx instance val))"
proof -
  let ?org = "ctx_org ctx"
  have owned: "find (\<lambda>urn. truthy_obj (from_urn ?org urn)) val = None
                 \<longleftrightarrow> (\<forall>urn \<in> set val. from_urn ?org urn = None)"
    by (auto simp add: find_None_iff truthy_obj_iff)
  show ?thesis
  proof (cases "find (\<lambda>urn. truthy_obj (from_urn ?org urn)) val")
    case None
    with owned have "\<forall>urn \<in> set val. from_urn ?org urn = None" by simp
    with None show ?thesis
      by (auto simp add: ContactWriteSerializer_validate_urns_def truthy_obj_iff Let_def)
  next
    case (Some u)
    with owned have "\<not> (\<forall>urn \<in> set val. from_urn ?org urn = None)" by simp
    with Some show ?thesis
      by (auto simp add: ContactWriteSerializer_validate_urns_def truthy_obj_iff Let_def)
  qed
qed

theorem validate_urns_policy_witness:
  "let by_uuid = \<lparr>ctx_org = \<lparr>org_id = 1, org_is_anon = True, org_is_suspended = False\<rparr>,
                  ctx_user = ''admin'', ctx_lookup_values = [(''uuid'', ''u-1'')],
                  ctx_contact_fields = [], ctx_include_geometry = False\<rparr>;
       by_urn = \<lparr>ctx_org = \<lparr>org_id = 1, org_is_anon = True, org_is_suspended = False\<rparr>,
                  ctx_user = ''admin'', ctx_lookup_values = [(''urns__urn'', ''tel:+250788000002'')],
                  ctx_contact_fields = [], ctx_include_geometry = False\<rparr>;
       ann = \<lparr>contact_uuid = ''u-1'', contact_name = Some ''Ann'', contact_language = None,
               contact_is_active = True, contact_is_blocked = False, contact_is_stopped = False,
               contact_urns = [''tel:+250788000001''], contact_prefetched_user_groups = None,
               contact_user_groups = [], contact_created_on = ''2016-01-06T15:33:00.813162Z'',
               contact_modified_on = ''2016-01-06T15:35:03.675716Z''\<rparr>;
       from_urn = (\<lambda>org urn. if urn = ''tel:+250788000001'' then Some ann else None)
   in map_of (ctx_lookup_values by_urn) ''urns__urn'' \<noteq> None
      \<and> ContactWriteSerializer_validate_urns from_urn by_urn None [''tel:+250788000003'']
          = Inl (ValidationError ''Field not allowed when using URN in URL'')
      \<and> org_is_anon (ctx_org by_uuid)
      \<and> isl (ContactWriteSerializer_validate_urns from_urn by_uuid (Some ann) [''tel:+250788000003''])
      \<and> map_of (ctx_lookup_values by_uuid) ''urns__urn'' = None
      \<and> from_urn (ctx_org by_uuid) ''tel:+250788000003'' = None
      \<and> ContactWriteSerializer_validate_urns from_urn by_uuid None [''tel:+250788000003'']
          = Inr [''tel:+250788000003'']
      \<and> from_urn (ctx_org by_uuid) ''tel:+250788000001'' \<noteq> None
      \<and> isl (ContactWriteSerializer_validate_urns from_urn by_uuid None
                [''tel:+250788000003'', ''tel:+250788000001''])"
  (is "let by_uuid = ?U; by_urn = ?N; ann = ?A; from_urn = _ in _")
proof -
  let ?F = "\<lambda>org urn. if urn = ''tel:+250788000001'' then Some ?A else None"
  have in_url: "map_of (ctx_lookup_values ?N) ''urns__urn'' \<noteq> None"
    by simp
  have update: "org_is_anon (ctx_org ?U)" "Some ?A \<noteq> None"
    by simp_all
  have free: "(None :: contact option) = None" "map_of (ctx_lookup_values ?U) ''urns__urn'' = None"
    "\<forall>urn \<in> set [''tel:+250788000003'']. ?F (ctx_org ?U) urn = None"
    "?F (ctx_org ?U) ''tel:+250788000003'' = None"
    by simp_all
  have taken: "\<exists>urn \<in> set [''tel:+250788000003'', ''tel:+250788000001'']. ?F (ctx_org ?U) urn \<noteq> None"
    "?F (ctx_org ?U) ''tel:+250788000001'' \<noteq> None"
    by simp_all
  from in_url validate_urns_policy [of ?N ?F None "[''tel:+250788000003'']"]
  have r1: "ContactWriteSerializer_validate_urns ?F ?N None [''tel:+250788000003'']
              = Inl (ValidationError ''Field not allowed when using URN in URL'')"
    by blast
  from update validate_urns_policy [of ?U ?F "Some ?A" "[''tel:+250788000003'']"]
  have r2: "isl (ContactWriteSerializer_validate_urns ?F ?U (Some ?A) [''tel:+250788000003''])"
    by blast
  from free validate_urns_policy [of ?U ?F None "[''tel:+250788000003'']"]
  have r3: "ContactWriteSerializer_validate_urns ?F ?U None [''tel:+250788000003'']
              = Inr [''tel:+250788000003'']"
    by blast
  from taken validate_urns_policy
    [of ?U ?F None "[''tel:+250788000003'', ''tel:+250788000001'']"]
  have r4: "isl (ContactWriteSerializer_validate_urns ?F ?U None
                  [''tel:+250788000003'', ''tel:+250788000001''])"
    by blast
  from in_url update(1) free(2,4) taken(2) r1 r2 r3 r4 show ?thesis
    unfolding Let_def by blast
qed

text \<open>
  Setting custom fields one after the other leaves the URNs of a contact alone when
  \<open>set_field\<close> does.
\<close>

lemma fold_set_field_urns:
  assumes "\<And>c user key v. contact_urns (Contact_set_field M c user key v) = contact_urns c"
  shows "contact_urns (fold (\<lambda>(key, v) i. Contact_set_field M i u key v) fs c) = contact_urns c"
  using assms by (induction fs arbitrary: c) (simp_all add: case_prod_beta)

text \<open>
  C10. When the lookup values hold a URN under \<open>urns__urn\<close> and the data has no
  \<open>urns\<close>, \<open>validate\<close> passes that URN to \<open>validate_urn\<close>: if that returns a URN,
  \<open>validate\<close> returns the data with \<open>urns\<close> set to the list of that one URN and
  nothing else changed; if it raises, \<open>validate\<close> raises the same error. When \<open>save\<close>
  then creates a contact (no instance) from the data that \<open>validate\<close> returned, it calls
  \<open>Contact.get_or_create\<close> with the org and the user of the context, the name and the
  language of the data, and \<open>urns\<close> the list of that one validated URN, and then sets
  the custom fields and the groups of the data on the contact it got. Hence the contact that
  \<open>save\<close> returns has that URN, provided that the model layer behaves as its names say:
  \<open>get_or_create\<close> returns a contact that has the URNs it was given, and \<open>set_field\<close>
  and \<open>update_static_groups\<close> leave the URNs of a contact alone.
\<close>

theorem contact_validate_injects_url_urn:
  assumes "map_of (ctx_lookup_values ctx) ''urns__urn'' = Some url_urn"
    and "cd_urns data = None"
  shows "(\<forall>urn. validate_urn url_urn = Inr urn \<longrightarrow>
            ContactWriteSerializer_validate validate_urn ctx data
              = Inr (data\<lparr>cd_urns := Some [urn]\<rparr>))
       \<and> (\<forall>e. validate_urn url_urn = Inl e \<longrightarrow>
            ContactWriteSerializer_validate validate_urn ctx data = Inl e)
       \<and> (\<forall>data'. ContactWriteSerializer_validate validate_urn ctx data = Inr data' \<longrightarrow>
            (\<exists>urn. validate_urn url_urn = Inr urn
               \<and> ContactWriteSerializer_save M ctx None data' =
                   (let created = Contact_get_or_create M (ctx_org ctx) (ctx_user ctx)
                                    (dict_get (cd_name data)) (Some [urn])
                                    (dict_get (cd_language data));
                        with_fields =
                          (case cd_fields data of
                             Some fs \<Rightarrow>
                               fold (\<lambda>(key, v) i. Contact_set_field M i (ctx_user ctx) key v) fs
                                 created
                           | None \<Rightarrow> created)
                    in case cd_groups data of
                         Some gs \<Rightarrow> Contact_update_static_groups M with_fields (ctx_user ctx) gs
                       | None \<Rightarrow> with_fields)))
       \<and> (\<forall>data'. ContactWriteSerializer_validate validate_urn ctx data = Inr data'
            \<and> (\<forall>org user name urns language.
                  set urns \<subseteq> set (contact_urns
                    (Contact_get_or_create M org user name (Some urns) language)))
            \<and> (\<forall>c user key v. contact_urns (Contact_set_field M c user key v) = contact_urns c)
            \<and> (\<forall>c user gs.
                  contact_urns (Contact_update_static_groups M c user gs) = contact_urns c)
            \<longrightarrow>
            (\<exists>urn. validate_urn url_urn = Inr urn
               \<and> urn \<in> set (contact_urns (ContactWriteSerializer_save M ctx None data'))))"
proof -
  from assms(2) have "\<not> truthy_seq (cd_urns data)"
    by (simp add: truthy_seq_iff)
  with assms(1) have validate: "ContactWriteSerializer_validate validate_urn ctx data =
      (case validate_urn url_urn of
         Inl e \<Rightarrow> Inl e
       | Inr urn \<Rightarrow> Inr (data\<lparr>cd_urns := Some [urn]\<rparr>))"
    by (simp add: ContactWriteSerializer_validate_def)
  have create: "ContactWriteSerializer_save M ctx None (data\<lparr>cd_urns := Some [urn]\<rparr>) =
      (let created = Contact_get_or_create M (ctx_org ctx) (ctx_user ctx)
                       (dict_get (cd_name data)) (Some [urn]) (dict_get (cd_language data));
           with_fields =
             (case cd_fields data of
                Some fs \<Rightarrow>
                  fold (\<lambda>(key, v) i. Contact_set_field M i (ctx_user ctx) key v) fs created
              | None \<Rightarrow> created)
       in case cd_groups data of
            Some gs \<Rightarrow> Contact_update_static_groups M with_fields (ctx_user ctx) gs
          | None \<Rightarrow> with_fields)" for urn
    by (simp add: ContactWriteSerializer_save_def Let_def)
  have receives: "urn \<in> set (contact_urns
      (ContactWriteSerializer_save M ctx None (data\<lparr>cd_urns := Some [urn]\<rparr>)))"
    if creates: "\<forall>org user name urns language.
          set urns \<subseteq> set (contact_urns (Contact_get_or_create M org user name (Some urns) language))"
      and field: "\<forall>c user key v. contact_urns (Contact_set_field M c user key v) = contact_urns c"
      and groups: "\<forall>c user gs.
          contact_urns (Contact_update_static_groups M c user gs) = contact_urns c"
    for urn
  proof -
    let ?created = "Contact_get_or_create M (ctx_org ctx) (ctx_user ctx)
                      (dict_get (cd_name data)) (Some [urn]) (dict_get (cd_language data))"
    from creates have "set [urn] \<subseteq> set (contact_urns ?created)"
      by blast
    then have here: "urn \<in> set (contact_urns ?created)"
      by simp
    from field have kept: "contact_urns
        (fold (\<lambda>(key, v) i. Contact_set_field M i (ctx_user ctx) key v) fs ?created)
        = contact_urns ?created" for fs
      by (intro fold_set_field_urns) simp
    from here kept groups show ?thesis
      unfolding create by (simp add: Let_def split: option.splits)
  qed
  show ?thesis
  proof (cases "validate_urn url_urn")
    case (Inl e)
    with validate show ?thesis by simp
  next
    case (Inr urn)
    with validate have "ContactWriteSerializer_validate validate_urn ctx data
        = Inr (data\<lparr>cd_urns := Some [urn]\<rparr>)"
      by simp
    with Inr create [of urn] receives [of urn] show ?thesis
      by simp
  qed
qed

theorem contact_validate_injects_url_urn_witness:
  "let ctx = \<lparr>ctx_org = \<lparr>org_id = 1, org_is_anon = False, org_is_suspended = False\<rparr>,
               ctx_user = ''admin'',
               ctx_lookup_values = [(''urns__urn'', ''tel:+250788000002'')],
               ctx_contact_fields = [\<lparr>field_key = ''age'', field_label = ''Age''\<rparr>],
               ctx_include_geometry = False\<rparr>;
       customers = \<lparr>group_uuid = ''g-1'', group_name = ''Customers'', group_is_dynamic = False\<rparr>;
       data = \<lparr>cd_name = Some (Some ''Bob''), cd_language = None, cd_urns = None,
                cd_groups = Some [customers], cd_fields = Some [(''age'', JStr ''34'')]\<rparr>;
       validate_urn = (\<lambda>urn. if urn = [] then Inl (ValidationError ''Invalid URN'') else Inr urn);
       M = \<lparr>Contact_get_or_create =
               (\<lambda>org user name urns language.
                  \<lparr>contact_uuid = ''u-2'', contact_name = name, contact_language = language,
                   contact_is_active = True, contact_is_blocked = False,
                   contact_is_stopped = False,
                   contact_urns = (case urns of Some us \<Rightarrow> us | None \<Rightarrow> []),
                   contact_prefetched_user_groups = None, contact_user_groups = [],
                   contact_created_on = ''2016-01-06T15:33:00.813162Z'',
                   contact_modified_on = ''2016-01-06T15:33:00.813162Z''\<rparr>),
             Contact_update_urns = (\<lambda>c user us. c\<lparr>contact_urns := us\<rparr>),
             Contact_save = (\<lambda>c changed. c),
             Contact_set_field = (\<lambda>c user key v. c\<lparr>contact_modified_on := ''2016-01-06T15:35:03.675716Z''\<rparr>),
             Contact_update_static_groups = (\<lambda>c user gs. c\<lparr>contact_user_groups := gs\<rparr>)\<rparr>;
       validated = data\<lparr>cd_urns := Some [''tel:+250788000002'']\<rparr>
   in map_of (ctx_lookup_values ctx) ''urns__urn'' = Some ''tel:+250788000002''
      \<and> cd_urns data = None
      \<and> validate_urn ''tel:+250788000002'' = Inr ''tel:+250788000002''
      \<and> ContactWriteSerializer_validate validate_urn ctx data = Inr validated
      \<and> (\<forall>org user name urns language.
            set urns \<subseteq> set (contact_urns (Contact_get_or_create M org user name (Some urns) language)))
      \<and> (\<forall>c user key v. contact_urns (Contact_set_field M c user key v) = contact_urns c)
      \<and> (\<forall>c user gs. contact_urns (Contact_update_static_groups M c user gs) = contact_urns c)
      \<and> ContactWriteSerializer_save M ctx None validated =
          \<lparr>contact_uuid = ''u-2'', contact_name = Some ''Bob'', contact_language = None,
           contact_is_active = True, contact_is_blocked = False, contact_is_stopped = False,
           contact_urns = [''tel:+250788000002''],
           contact_prefetched_user_groups = None, contact_user_groups = [customers],
           contact_created_on = ''2016-01-06T15:33:00.813162Z'',
           contact_modified_on = ''2016-01-06T15:35:03.675716Z''\<rparr>
      \<and> ''tel:+250788000002'' \<in> set (contact_urns (ContactWriteSerializer_save M ctx None validated))"
  (is "let ctx = ?C; customers = ?G; data = _; validate_urn = ?V; M = ?M; validated = _ in _")
proof -
  let ?D = "\<lparr>cd_name = Some (Some ''Bob''), cd_language = None, cd_urns = None,
             cd_groups = Some [?G], cd_fields = Some [(''age'', JStr ''34'')]\<rparr>"
  let ?D' = "?D\<lparr>cd_urns := Some [''tel:+250788000002'']\<rparr>"
  have given: "map_of (ctx_lookup_values ?C) ''urns__urn'' = Some ''tel:+250788000002''"
    "cd_urns ?D = None"
    by simp_all
  have valid: "?V ''tel:+250788000002'' = Inr ''tel:+250788000002''"
    by simp
  have models:
    "\<forall>org user name urns language.
       set urns \<subseteq> set (contact_urns (Contact_get_or_create ?M org user name (Some urns) language))"
    "\<forall>c user key v. contact_urns (Contact_set_field ?M c user key v) = contact_urns c"
    "\<forall>c user gs. contact_urns (Contact_update_static_groups ?M c user gs) = contact_urns c"
    by simp_all
  note policy = contact_validate_injects_url_urn [OF given, of ?V ?M]
  from valid policy
  have validated: "ContactWriteSerializer_validate ?V ?C ?D = Inr ?D'"
    by blast
  with policy obtain urn where urn: "?V ''tel:+250788000002'' = Inr urn"
    and saved: "ContactWriteSerializer_save ?M ?C None ?D' =
      (let created = Contact_get_or_create ?M (ctx_org ?C) (ctx_user ?C)
                       (dict_get (cd_name ?D)) (Some [urn]) (dict_get (cd_language ?D));
           with_fields =
             (case cd_fields ?D of
                Some fs \<Rightarrow>
                  fold (\<lambda>(key, v) i. Contact_set_field ?M i (ctx_user ?C) key v) fs created
              | None \<Rightarrow> created)
       in case cd_groups ?D of
            Some gs \<Rightarrow> Contact_update_static_groups ?M with_fields (ctx_user ?C) gs
          | None \<Rightarrow> with_fields)"
    by blast
  from urn valid have "urn = ''tel:+250788000002''"
    by (simp only: sum.inject)
  with saved have contact: "ContactWriteSerializer_save ?M ?C None ?D' =
      \<lparr>contact_uuid = ''u-2'', contact_name = Some ''Bob'', contact_language = None,
       contact_is_active = True, contact_is_blocked = False, contact_is_stopped = False,
       contact_urns = [''tel:+250788000002''],
       contact_prefetched_user_groups = None, contact_user_groups = [?G],
       contact_created_on = ''2016-01-06T15:33:00.813162Z'',
       contact_modified_on = ''2016-01-06T15:35:03.675716Z''\<rparr>"
    by (simp add: Let_def dict_get_def)
  from validated models policy obtain urn' where "?V ''tel:+250788000002'' = Inr urn'"
    and "urn' \<in> set (contact_urns (ContactWriteSerializer_save ?M ?C None ?D'))"
    by blast
  with valid
  have receives: "''tel:+250788000002'' \<in> set (contact_urns (ContactWriteSerializer_save ?M ?C None ?D'))"
    by (simp only: sum.inject)
  from given valid validated models contact receives show ?thesis
    unfolding Let_def by blast
qed


section \<open>Messages\<close>

text \<open>
  C7. \<open>get_status\<close> gives the same result for a message whose status is \<open>PENDING\<close> as
  for the same message with status \<open>QUEUED\<close>, namely the entry of the status table
  for \<open>QUEUED\<close>; for every other status it gives the entry of the table for that
  status.
\<close>

theorem get_status_pending_as_queued:
  "MsgReadSerializer_get_status STATUS_CONFIG PENDING QUEUED (obj\<lparr>msg_status := PENDING\<rparr>)
     = MsgReadSerializer_get_status STATUS_CONFIG PENDING QUEUED (obj\<lparr>msg_status := QUEUED\<rparr>)
   \<and> MsgReadSerializer_get_status STATUS_CONFIG PENDING QUEUED (obj\<lparr>msg_status := PENDING\<rparr>)
     = extract_constants STATUS_CONFIG False QUEUED
   \<and> (msg_status obj \<noteq> PENDING \<longrightarrow>
        MsgReadSerializer_get_status STATUS_CONFIG PENDING QUEUED obj
          = extract_constants STATUS_CONFIG False (msg_status obj))"
  by (simp add: MsgReadSerializer_get_status_def)

theorem get_status_pending_as_queued_witness:
  "let config = [(''P'', ''Pending'', ''pending''), (''Q'', ''Queued'', ''queued''),
                 (''S'', ''Sent'', ''sent'')];
       obj = \<lparr>msg_id = 7, msg_status = ''S'', msg_visibility = ''V'', msg_direction = ''O'',
               msg_text = ''hello''\<rparr>
   in msg_status obj \<noteq> ''P''
      \<and> MsgReadSerializer_get_status config ''P'' ''Q'' obj = Some ''sent''
      \<and> MsgReadSerializer_get_status config ''P'' ''Q'' (obj\<lparr>msg_status := ''P''\<rparr>) = Some ''queued''
      \<and> MsgReadSerializer_get_status config ''P'' ''Q'' (obj\<lparr>msg_status := ''P''\<rparr>)
          = MsgReadSerializer_get_status config ''P'' ''Q'' (obj\<lparr>msg_status := ''Q''\<rparr>)"
  (is "let config = ?C; obj = ?O in _")
proof -
  note policy = get_status_pending_as_queued [of ?C "''P''" "''Q''" ?O]
  have sent: "msg_status ?O \<noteq> ''P''" "msg_status ?O = ''S''"
    by simp_all
  have table: "extract_constants ?C False ''S'' = Some ''sent''"
    "extract_constants ?C False ''Q'' = Some ''queued''"
    by (simp_all add: extract_constants_def)
  from policy sent(1)
  have "MsgReadSerializer_get_status ?C ''P'' ''Q'' ?O = extract_constants ?C False (msg_status ?O)"
    by blast
  with sent(2) table(1) have other: "MsgReadSerializer_get_status ?C ''P'' ''Q'' ?O = Some ''sent''"
    by (simp only:)
  from policy
  have "MsgReadSerializer_get_status ?C ''P'' ''Q'' (?O\<lparr>msg_status := ''P''\<rparr>)
          = extract_constants ?C False ''Q''"
    by blast
  with table(2)
  have pending: "MsgReadSerializer_get_status ?C ''P'' ''Q'' (?O\<lparr>msg_status := ''P''\<rparr>)
                   = Some ''queued''"
    by (simp only:)
  from policy
  have same: "MsgReadSerializer_get_status ?C ''P'' ''Q'' (?O\<lparr>msg_status := ''P''\<rparr>)
                = MsgReadSerializer_get_status ?C ''P'' ''Q'' (?O\<lparr>msg_status := ''Q''\<rparr>)"
    by blast
  from sent(1) other pending same show ?thesis
    unfolding Let_def by blast
qed

end
